theory Spec2Isabelle
  imports Complex_Main
begin

section \<open>Python values\<close>

text \<open>
  The tools of \<^verbatim>\<open>tools_capstone.py\<close> receive and return dynamically typed Python
  values: JSON documents parsed by \<^verbatim>\<open>response.json()\<close>, and dictionaries built by the
  tools. A dictionary is an association list in insertion order with string keys, which
  is all that JSON and the tools produce. A string is the list of its code points, one
  \<open>char\<close> each: the model holds the strings whose code points lie below 256.
\<close>

datatype float64 = Finite bool rat | Infinite bool | NaN

datatype pyval =
    PNone
  | PBool bool
  | PInt int
  | PFloat float64
  | PStr string
  | PList "pyval list"
  | PDict "(string \<times> pyval) list"

text \<open>
  A raised exception: \<^verbatim>\<open>type(e).__name__\<close>, \<^verbatim>\<open>str(e)\<close>, and whether the class
  derives from \<^verbatim>\<open>ValueError\<close> (the one distinction an \<^verbatim>\<open>except\<close> clause of the
  source draws, besides \<^verbatim>\<open>HTTPError\<close>, which only \<^verbatim>\<open>raise_for_status\<close> raises).
\<close>

datatype py_exc = PyExc (exc_type: string) (exc_msg: string) (exc_is_value_error: bool)

fun type_name :: "pyval \<Rightarrow> string" where
  "type_name PNone = ''NoneType''"
| "type_name (PBool _) = ''bool''"
| "type_name (PInt _) = ''int''"
| "type_name (PFloat _) = ''float''"
| "type_name (PStr _) = ''str''"
| "type_name (PList _) = ''list''"
| "type_name (PDict _) = ''dict''"

text \<open>Truth value of an object, as \<^verbatim>\<open>if x:\<close> and \<^verbatim>\<open>x or y\<close> test it.\<close>

fun py_truthy :: "pyval \<Rightarrow> bool" where
  "py_truthy PNone = False"
| "py_truthy (PBool b) = b"
| "py_truthy (PInt n) = (n \<noteq> 0)"
| "py_truthy (PFloat (Finite s q)) = (q \<noteq> 0)"
| "py_truthy (PFloat _) = True"
| "py_truthy (PStr s) = (s \<noteq> [])"
| "py_truthy (PList xs) = (xs \<noteq> [])"
| "py_truthy (PDict kvs) = (kvs \<noteq> [])"

definition py_or :: "pyval \<Rightarrow> pyval \<Rightarrow> pyval" where
  "py_or x y = (if py_truthy x then x else y)"

text \<open>
  \<^verbatim>\<open>x.get(key, default)\<close>: only a dict has the method; on any other object the
  attribute lookup raises \<^verbatim>\<open>AttributeError\<close>.
\<close>

definition py_get :: "pyval \<Rightarrow> string \<Rightarrow> pyval \<Rightarrow> py_exc + pyval" where
  "py_get x key dflt =
     (case x of
        PDict kvs \<Rightarrow> (case map_of kvs key of Some v \<Rightarrow> Inr v | None \<Rightarrow> Inr dflt)
      | _ \<Rightarrow> Inl (PyExc ''AttributeError''
                 ([CHR 0x27] @ type_name x @ [CHR 0x27] @ '' object has no attribute '' @
                  [CHR 0x27] @ ''get'' @ [CHR 0x27]) False))"

fun is_prefix :: "string \<Rightarrow> string \<Rightarrow> bool" where
  "is_prefix [] ys = True"
| "is_prefix (x # xs) [] = False"
| "is_prefix (x # xs) (y # ys) = (x = y \<and> is_prefix xs ys)"

fun is_substring :: "string \<Rightarrow> string \<Rightarrow> bool" where
  "is_substring xs [] = (xs = [])"
| "is_substring xs (y # ys) = (is_prefix xs (y # ys) \<or> is_substring xs ys)"

text \<open>
  \<^verbatim>\<open>key in x\<close> for a string \<^verbatim>\<open>key\<close>: key membership in a dict, element membership
  in a list, substring test in a str, and \<^verbatim>\<open>TypeError\<close> on the objects that are not
  containers.
\<close>

definition py_contains :: "string \<Rightarrow> pyval \<Rightarrow> py_exc + bool" where
  "py_contains key x =
     (case x of
        PDict kvs \<Rightarrow> Inr (key \<in> set (map fst kvs))
      | PList xs \<Rightarrow> Inr (PStr key \<in> set xs)
      | PStr s \<Rightarrow> Inr (is_substring key s)
      | _ \<Rightarrow> Inl (PyExc ''TypeError''
                 (''argument of type '' @ [CHR 0x27] @ type_name x @ [CHR 0x27] @
                  '' is not iterable'') False))"

text \<open>\<^verbatim>\<open>d[key] = v\<close> and \<^verbatim>\<open>d.update(other)\<close> on an insertion-ordered dict.\<close>

fun dict_set :: "('k \<times> 'v) list \<Rightarrow> 'k \<Rightarrow> 'v \<Rightarrow> ('k \<times> 'v) list" where
  "dict_set [] k v = [(k, v)]"
| "dict_set ((k', v') # kvs) k v = (if k' = k then (k, v) # kvs else (k', v') # dict_set kvs k v)"

definition dict_update :: "('k \<times> 'v) list \<Rightarrow> ('k \<times> 'v) list \<Rightarrow> ('k \<times> 'v) list" where
  "dict_update d other = fold (\<lambda>(k, v) acc. dict_set acc k v) other d"

subsection \<open>Strings\<close>

text \<open>
  \<^verbatim>\<open>c.isspace()\<close>, the characters \<^verbatim>\<open>str.strip()\<close> removes: below code point 256
  these are the tab to carriage return range, the four separators \<^verbatim>\<open>0x1C\<close> to
  \<^verbatim>\<open>0x1F\<close>, the blank, next line (\<^verbatim>\<open>0x85\<close>) and the no-break space (\<^verbatim>\<open>0xA0\<close>).
\<close>

definition is_space :: "char \<Rightarrow> bool" where
  "is_space c = (c \<in> set [CHR 0x09, CHR 0x0A, CHR 0x0B, CHR 0x0C, CHR 0x0D,
                            CHR 0x1C, CHR 0x1D, CHR 0x1E, CHR 0x1F, CHR 0x20,
                            CHR 0x85, CHR 0xA0])"

text \<open>\<^verbatim>\<open>s.strip()\<close>: leading and trailing whitespace removed.\<close>

definition py_strip :: "string \<Rightarrow> string" where
  "py_strip s = rev (dropWhile is_space (rev (dropWhile is_space s)))"

definition ascii_lowercase :: string where
  "ascii_lowercase = ''abcdefghijklmnopqrstuvwxyz''"

definition ascii_uppercase :: string where
  "ascii_uppercase = ''ABCDEFGHIJKLMNOPQRSTUVWXYZ''"

definition upper_char :: "char \<Rightarrow> char" where
  "upper_char c = (case map_of (zip ascii_lowercase ascii_uppercase) c of Some u \<Rightarrow> u | None \<Rightarrow> c)"

text \<open>
  \<^verbatim>\<open>s.upper()\<close> on ASCII text. Beyond ASCII the upper case follows the Unicode tables
  (it may leave the code points below 256, or lengthen the string), which the model does
  not hold: every theorem that speaks of \<open>py_upper\<close> assumes its argument \<open>is_ascii\<close>.
\<close>

definition py_upper :: "string \<Rightarrow> string" where
  "py_upper s = map upper_char s"

definition is_ascii :: "string \<Rightarrow> bool" where
  "is_ascii s = list_all (\<lambda>c. (of_char c :: nat) < 128) s"

fun string_of_nat :: "nat \<Rightarrow> string" where
  "string_of_nat n =
     (if n < 10 then [char_of (48 + n)]
      else string_of_nat (n div 10) @ [char_of (48 + n mod 10)])"

subsection \<open>Binary64 floating point\<close>

text \<open>
  Python's \<^verbatim>\<open>float\<close> is an IEEE 754 binary64 number. A finite one is kept as its sign
  and its exact magnitude (a rational), so that zero is signed; arithmetic computes the
  exact rational result and rounds it to the nearest representable number, ties to even.
\<close>

fun bit_length :: "nat \<Rightarrow> nat" where
  "bit_length n = (if n = 0 then 0 else Suc (bit_length (n div 2)))"

definition pow2 :: "int \<Rightarrow> rat" where
  "pow2 e = (if 0 \<le> e then 2 ^ nat e else 1 / 2 ^ nat (- e))"

definition pow10 :: "int \<Rightarrow> rat" where
  "pow10 e = (if 0 \<le> e then 10 ^ nat e else 1 / 10 ^ nat (- e))"

text \<open>
  The exponent \<open>e\<close> with \<open>2\<^sup>e \<le> q < 2\<^sup>e\<^sup>+\<^sup>1\<close>, for \<open>q > 0\<close>: one less than the bit length of
  the integer part when \<open>q \<ge> 1\<close>, and found on the reciprocal otherwise.
\<close>

definition floor_log2 :: "rat \<Rightarrow> int" where
  "floor_log2 q =
     (if 1 \<le> q then int (bit_length (nat \<lfloor>q\<rfloor>)) - 1
      else - int (bit_length (nat (\<lceil>1 / q\<rceil> - 1))))"

definition round_half_even :: "rat \<Rightarrow> int" where
  "round_half_even q =
     (let f = \<lfloor>q\<rfloor>; d = q - of_int f
      in if d < 1 / 2 then f else if 1 / 2 < d then f + 1 else if even f then f else f + 1)"

text \<open>
  Rounding of a magnitude \<open>q \<ge> 0\<close>: 53 significant bits, the unit in the last place
  no smaller than \<open>2\<^sup>-\<^sup>1\<^sup>0\<^sup>7\<^sup>4\<close> (subnormals), overflow to infinity from \<open>2\<^sup>1\<^sup>0\<^sup>2\<^sup>4\<close> on.
\<close>

definition round_to_double :: "bool \<Rightarrow> rat \<Rightarrow> float64" where
  "round_to_double s q =
     (if q = 0 then Finite s 0
      else let e = floor_log2 q;
               u = max (e - 52) (- 1074);
               r = of_int (round_half_even (q / pow2 u)) * pow2 u
           in if pow2 1024 \<le> r then Infinite s else Finite s r)"

definition signed :: "bool \<Rightarrow> rat \<Rightarrow> rat" where
  "signed s q = (if s then - q else q)"

fun fadd :: "float64 \<Rightarrow> float64 \<Rightarrow> float64" where
  "fadd NaN _ = NaN"
| "fadd _ NaN = NaN"
| "fadd (Infinite s) (Infinite t) = (if s = t then Infinite s else NaN)"
| "fadd (Infinite s) (Finite _ _) = Infinite s"
| "fadd (Finite _ _) (Infinite t) = Infinite t"
| "fadd (Finite s p) (Finite t q) =
     (let v = signed s p + signed t q
      in if v = 0 then Finite (s \<and> t) 0 else round_to_double (v < 0) \<bar>v\<bar>)"

fun fmul :: "float64 \<Rightarrow> float64 \<Rightarrow> float64" where
  "fmul NaN _ = NaN"
| "fmul _ NaN = NaN"
| "fmul (Infinite s) (Infinite t) = Infinite (s \<noteq> t)"
| "fmul (Infinite s) (Finite t q) = (if q = 0 then NaN else Infinite (s \<noteq> t))"
| "fmul (Finite s p) (Infinite t) = (if p = 0 then NaN else Infinite (s \<noteq> t))"
| "fmul (Finite s p) (Finite t q) = round_to_double (s \<noteq> t) (p * q)"

subsection \<open>The conversion \<^verbatim>\<open>float(x)\<close>\<close>

definition is_digit :: "char \<Rightarrow> bool" where
  "is_digit c = (c \<in> set ''0123456789'')"

definition digit_val :: "char \<Rightarrow> nat" where
  "digit_val c = of_char c - 48"

text \<open>
  The longest prefix of the grammar \<^verbatim>\<open>digit (["_"] digit)*\<close>: its digits and the rest
  of the input.
\<close>

fun digitpart :: "string \<Rightarrow> nat list \<times> string" where
  "digitpart [] = ([], [])"
| "digitpart [c] = (if is_digit c then ([digit_val c], []) else ([], [c]))"
| "digitpart (c # u # cs) =
     (if \<not> is_digit c then ([], c # u # cs)
      else if u = CHR ''_'' \<and> cs \<noteq> [] \<and> is_digit (hd cs)
           then (digit_val c # fst (digitpart cs), snd (digitpart cs))
           else (digit_val c # fst (digitpart (u # cs)), snd (digitpart (u # cs))))"

definition nat_of_digits :: "nat list \<Rightarrow> nat" where
  "nat_of_digits ds = foldl (\<lambda>a d. 10 * a + d) 0 ds"

definition take_sign :: "string \<Rightarrow> bool \<times> string" where
  "take_sign s =
     (case s of
        [] \<Rightarrow> (False, [])
      | c # cs \<Rightarrow> if c = CHR ''-'' then (True, cs) else if c = CHR ''+'' then (False, cs)
                 else (False, s))"

text \<open>
  The string grammar of \<^verbatim>\<open>float\<close>, on a string already stripped of whitespace:
  an optional sign, then \<^verbatim>\<open>inf\<close>, \<^verbatim>\<open>infinity\<close> or \<^verbatim>\<open>nan\<close> in any case, or a
  decimal number with an optional exponent. \<open>None\<close> is \<^verbatim>\<open>ValueError\<close>.
\<close>

definition parse_float :: "string \<Rightarrow> float64 option" where
  "parse_float s =
     (let (neg, r0) = take_sign s
      in if py_upper r0 = ''INF'' \<or> py_upper r0 = ''INFINITY'' then Some (Infinite neg)
         else if py_upper r0 = ''NAN'' then Some NaN
         else
           let (ip, r1) = digitpart r0;
               (fp, r2) = (case r1 of
                             [] \<Rightarrow> ([], [])
                           | c # cs \<Rightarrow> if c = CHR ''.'' then digitpart cs else ([], r1));
               m = of_nat (nat_of_digits (ip @ fp))
           in if ip = [] \<and> fp = [] then None
              else (case r2 of
                      [] \<Rightarrow> Some (round_to_double neg (m * pow10 (- int (length fp))))
                    | c # cs \<Rightarrow>
                        if c = CHR ''e'' \<or> c = CHR ''E'' then
                          (let (eneg, r3) = take_sign cs; (ed, r4) = digitpart r3;
                               x = (if eneg then - int (nat_of_digits ed) else int (nat_of_digits ed))
                           in if ed = [] \<or> r4 \<noteq> [] then None
                              else Some (round_to_double neg (m * pow10 (x - int (length fp)))))
                        else None))"

text \<open>
  The text \<^verbatim>\<open>float\<close> parses. An ASCII string is taken as it is. In any other string
  a character beyond code point 127 becomes a blank when it is whitespace, and otherwise
  a question mark, at which the text ends. Of the text, the C whitespace (tab to carriage
  return, blank) is stripped at both ends; the separators \<^verbatim>\<open>0x1C\<close> to \<^verbatim>\<open>0x1F\<close> stay.
\<close>

fun float_transform :: "string \<Rightarrow> string" where
  "float_transform [] = []"
| "float_transform (c # cs) =
     (if (of_char c :: nat) < 128 then c # float_transform cs
      else if is_space c then CHR '' '' # float_transform cs
      else ''?'')"

definition float_text :: "string \<Rightarrow> string" where
  "float_text s = (if is_ascii s then s else float_transform s)"

definition is_c_space :: "char \<Rightarrow> bool" where
  "is_c_space c = (c \<in> set [CHR 0x09, CHR 0x0A, CHR 0x0B, CHR 0x0C, CHR 0x0D, CHR 0x20])"

definition float_strip :: "string \<Rightarrow> string" where
  "float_strip s = rev (dropWhile is_c_space (rev (dropWhile is_c_space s)))"

text \<open>
  \<^verbatim>\<open>float(x)\<close>; \<open>None\<close> stands for the exception it raises (\<^verbatim>\<open>TypeError\<close> on an
  object that is no number or string, \<^verbatim>\<open>ValueError\<close> on a malformed string,
  \<^verbatim>\<open>OverflowError\<close> on an int beyond the range), all of them caught alike by the
  caller's \<^verbatim>\<open>except Exception\<close>.
\<close>

fun py_float :: "pyval \<Rightarrow> float64 option" where
  "py_float (PFloat f) = Some f"
| "py_float (PInt n) =
     (case round_to_double (n < 0) (of_int \<bar>n\<bar>) of
        Infinite _ \<Rightarrow> None
      | f \<Rightarrow> Some f)"
| "py_float (PBool b) = Some (Finite False (if b then 1 else 0))"
| "py_float (PStr s) = parse_float (float_strip (float_text s))"
| "py_float _ = None"

section \<open>Configuration and the network\<close>

text \<open>
  The three secrets read from \<^verbatim>\<open>st.secrets\<close> when the module is loaded.
\<close>

record config =
  GROQ_API_KEY :: string
  FINNHUB_API_KEY :: string
  ZOYA_API_KEY :: string

text \<open>
  The object \<^verbatim>\<open>requests.get\<close> and \<^verbatim>\<open>requests.post\<close> return. \<open>resp_json\<close> is the
  outcome of \<^verbatim>\<open>response.json()\<close>: the parsed body, or the exception it raises on a body
  it cannot parse (as a rule a \<^verbatim>\<open>JSONDecodeError\<close>, which is a \<^verbatim>\<open>ValueError\<close>; a
  \<^verbatim>\<open>RecursionError\<close> on a body nested too deep is not).
\<close>

record http_response =
  status_code :: nat
  reason :: string
  resp_text :: string
  resp_json :: "py_exc + pyval"

text \<open>
  An outbound call: the URL, the headers, and for a POST the value whose
  \<^verbatim>\<open>json.dumps\<close> is the body.
\<close>

datatype request =
    GET string "(string \<times> string) list"
  | POST string "(string \<times> string) list" pyval

text \<open>
  What the network does with a call: the transport raises (connection refused, timeout,
  invalid URL, ...) or a response arrives. The network is a parameter of every function
  that calls it; the calls made are returned next to the result.
\<close>

datatype transport = Raises py_exc | Responds http_response

type_synonym network = "request \<Rightarrow> transport"

text \<open>\<^verbatim>\<open>response.raise_for_status()\<close> raises \<^verbatim>\<open>HTTPError\<close> on a 4xx or 5xx status.\<close>

definition raise_for_status :: "http_response \<Rightarrow> bool" where
  "raise_for_status response = (400 \<le> status_code response \<and> status_code response < 600)"

definition http_error_text :: "http_response \<Rightarrow> string" where
  "http_error_text response =
     ''HTTPError '' @ string_of_nat (status_code response) @ '' - '' @ reason response"

definition unexpected_error_text :: "py_exc \<Rightarrow> string" where
  "unexpected_error_text e = ''Unexpected error: '' @ exc_type e @ '' - '' @ exc_msg e"

text \<open>The exception \<^verbatim>\<open>response.json()\<close> raises on a body that is not JSON at all.\<close>

definition json_decode_error :: "string \<Rightarrow> py_exc" where
  "json_decode_error msg = PyExc ''JSONDecodeError'' msg True"

section \<open>The adapters\<close>

definition retrieve_from_endpoint :: "config \<Rightarrow> network \<Rightarrow> string \<Rightarrow> pyval \<times> request list" where
  "retrieve_from_endpoint cfg net url =
     (let headers = [(''X-Finnhub-Token'', FINNHUB_API_KEY cfg)];
          req = GET url headers
      in (case net req of
            Raises e \<Rightarrow>
              PDict [(''error'', PStr (unexpected_error_text e)), (''url'', PStr url)]
          | Responds response \<Rightarrow>
              if raise_for_status response then
                PDict [(''error'', PStr (http_error_text response)),
                       (''url'', PStr url),
                       (''detail'', PStr (resp_text response))]
              else (case resp_json response of
                      Inl e \<Rightarrow>
                        PDict [(''error'', PStr (unexpected_error_text e)),
                               (''url'', PStr url)]
                    | Inr data \<Rightarrow> data),
          [req]))"

text \<open>Lines 84 to 88: the payload of the GraphQL request.\<close>

definition graphql_payload ::
  "string \<Rightarrow> (string \<times> pyval) list option \<Rightarrow> string option \<Rightarrow> (string \<times> pyval) list" where
  "graphql_payload query variables operation_name =
     (let payload = [(''query'', PStr query)];
          payload = (case variables of
                       None \<Rightarrow> payload
                     | Some vs \<Rightarrow> dict_set payload ''variables'' (PDict vs));
          payload = (case operation_name of
                       None \<Rightarrow> payload
                     | Some n \<Rightarrow> if n \<noteq> [] then dict_set payload ''operationName'' (PStr n)
                                else payload)
      in payload)"

definition graphql_headers :: "config \<Rightarrow> (string \<times> string) list option \<Rightarrow> (string \<times> string) list" where
  "graphql_headers cfg extra_headers =
     (let headers = [(''Authorization'', ZOYA_API_KEY cfg),
                     (''Content-Type'', ''application/json''),
                     (''Accept'', ''application/json'')]
      in case extra_headers of
           None \<Rightarrow> headers
         | Some extra \<Rightarrow> if extra \<noteq> [] then dict_update headers extra else headers)"

definition opt_str :: "string option \<Rightarrow> pyval" where
  "opt_str x = (case x of None \<Rightarrow> PNone | Some s \<Rightarrow> PStr s)"

definition opt_dict :: "(string \<times> pyval) list option \<Rightarrow> pyval" where
  "opt_dict x = (case x of None \<Rightarrow> PNone | Some kvs \<Rightarrow> PDict kvs)"

text \<open>The body handling of lines 94 to 108, once the response has parsed.\<close>

definition graphql_result ::
  "string \<Rightarrow> (string \<times> pyval) list option \<Rightarrow> string option \<Rightarrow> pyval \<Rightarrow> pyval" where
  "graphql_result endpoint variables operation_name body =
     (case body of
        PDict kvs \<Rightarrow>
          (case map_of kvs ''errors'' of
             Some errs \<Rightarrow>
               if py_truthy errs then
                 PDict [(''error'', PStr ''GraphQLError''),
                        (''errors'', errs),
                        (''request'', PDict [(''endpoint'', PStr endpoint),
                                             (''operationName'', opt_str operation_name),
                                             (''variables'', opt_dict variables)])]
               else PDict [(''data'', (case map_of kvs ''data'' of Some d \<Rightarrow> d | None \<Rightarrow> PNone))]
           | None \<Rightarrow> PDict [(''data'', (case map_of kvs ''data'' of Some d \<Rightarrow> d | None \<Rightarrow> PNone))])
      | _ \<Rightarrow> PDict [(''data'', PNone)])"

definition graphql_exception :: "string \<Rightarrow> py_exc \<Rightarrow> pyval" where
  "graphql_exception endpoint e =
     (if exc_is_value_error e then
        PDict [(''error'', PStr (unexpected_error_text e)),
               (''url'', PStr endpoint),
               (''detail'', PStr ''Failed to parse JSON response.'')]
      else
        PDict [(''error'', PStr (unexpected_error_text e)),
               (''url'', PStr endpoint)])"

text \<open>
  Lines 76 to 126. The body of the POST is \<^verbatim>\<open>json.dumps(payload)\<close>; the call is kept with
  the payload itself, whose serialization is taken to succeed.
\<close>

definition retrieve_graphql_endpoint ::
  "config \<Rightarrow> network \<Rightarrow> string \<Rightarrow> string \<Rightarrow> (string \<times> pyval) list option \<Rightarrow> string option \<Rightarrow>
   (string \<times> string) list option \<Rightarrow> pyval \<times> request list" where
  "retrieve_graphql_endpoint cfg net endpoint query variables operation_name extra_headers =
     (let headers = graphql_headers cfg extra_headers;
          payload = graphql_payload query variables operation_name;
          req = POST endpoint headers (PDict payload)
      in (case net req of
            Raises e \<Rightarrow> graphql_exception endpoint e
          | Responds response \<Rightarrow>
              if raise_for_status response then
                PDict [(''error'', PStr (http_error_text response)),
                       (''url'', PStr endpoint),
                       (''detail'', PStr (resp_text response))]
              else (case resp_json response of
                      Inl e \<Rightarrow> graphql_exception endpoint e
                    | Inr body \<Rightarrow> graphql_result endpoint variables operation_name body),
          [req]))"

section \<open>The tools\<close>

definition query_compliance_report :: string where
  "query_compliance_report =
     concat (map (\<lambda>l. l @ [CHR 0x0A])
       [[],
        ''query getReport($symbol: String!) {'',
        ''  basicCompliance {'',
        ''    report(symbol: $symbol) {'',
        ''      exchange'',
        ''      name'',
        ''      purificationRatio'',
        ''      reportDate'',
        ''      status'',
        ''      symbol'',
        ''    }'',
        ''  }'',
        ''}''])"

definition compliance_endpoint :: string where
  "compliance_endpoint = ''https://api.zoya.finance/graphql''"

definition invalid_symbol :: pyval where
  "invalid_symbol =
     PDict [(''error'', PStr ''InvalidInput''),
            (''detail'', PStr ''symbol must be a non-empty string.'')]"

definition not_found :: "string \<Rightarrow> pyval" where
  "not_found symbol =
     PDict [(''error'', PStr ''NotFound''),
            (''detail'', PStr (''No compliance report found for symbol '' @ [CHR 0x27] @ symbol @
                               [CHR 0x27] @ ''.''))]"

text \<open>
  Lines 179 and 180: the value of
  \<^verbatim>\<open>(data.get("basicCompliance") or {}).get("report")\<close> with
  \<^verbatim>\<open>data = result["data"] or {}\<close>.
\<close>

definition report_of :: "pyval \<Rightarrow> py_exc + pyval" where
  "report_of d =
     (let data = py_or d (PDict [])
      in case py_get data ''basicCompliance'' PNone of
           Inl e \<Rightarrow> Inl e
         | Inr bc \<Rightarrow> py_get (py_or bc (PDict [])) ''report'' PNone)"

text \<open>
  A tool returns a value or raises; the calls it made on the network come with it.
\<close>

definition get_compliance_report ::
  "config \<Rightarrow> network \<Rightarrow> pyval \<Rightarrow> (py_exc + pyval) \<times> request list" where
  "get_compliance_report cfg net symbol =
     (case symbol of
        PStr s \<Rightarrow>
          if py_strip s = [] then (Inr invalid_symbol, [])
          else
            let variables = [(''symbol'', PStr (py_upper (py_strip s)))];
                (result, reqs) = retrieve_graphql_endpoint cfg net compliance_endpoint
                                   query_compliance_report (Some variables) (Some ''getReport'') None
            in (case result of
                  PDict kvs \<Rightarrow>
                    (case map_of kvs ''data'' of
                       Some d \<Rightarrow>
                         (case report_of d of
                            Inl e \<Rightarrow> (Inl e, reqs)
                          | Inr report \<Rightarrow>
                              if report = PNone
                              then (Inr (not_found (py_upper (py_strip s))), reqs)
                              else (Inr result, reqs))
                     | None \<Rightarrow> (Inr result, reqs))
                | _ \<Rightarrow> (Inr result, reqs))
      | _ \<Rightarrow> (Inr invalid_symbol, []))"


definition invalid_numbers :: pyval where
  "invalid_numbers =
     PDict [(''status'', PStr ''error''),
            (''error'', PStr ''InvalidInput''),
            (''detail'', PStr ''All inputs must be numbers.'')]"

text \<open>
  \<^verbatim>\<open>capital_gain\<close> and \<^verbatim>\<open>dividend_income\<close> are optional, with default \<^verbatim>\<open>0.0\<close>.
\<close>

definition or_default :: "pyval option \<Rightarrow> pyval" where
  "or_default arg = (case arg of None \<Rightarrow> PFloat (Finite False 0) | Some v \<Rightarrow> v)"

definition get_purification_amount ::
  "pyval \<Rightarrow> pyval option \<Rightarrow> pyval option \<Rightarrow> (py_exc + pyval) \<times> request list" where
  "get_purification_amount purification_ratio capital_gain dividend_income =
     (case py_float purification_ratio of
        None \<Rightarrow> (Inr invalid_numbers, [])
      | Some r \<Rightarrow>
          (case py_float (or_default capital_gain) of
             None \<Rightarrow> (Inr invalid_numbers, [])
           | Some cg \<Rightarrow>
               (case py_float (or_default dividend_income) of
                  None \<Rightarrow> (Inr invalid_numbers, [])
                | Some dv \<Rightarrow>
                    (Inr (PDict [(''status'', PStr ''ok''),
                                 (''ratio_used'', PFloat r),
                                 (''inputs'', PDict [(''capital_gain'', PFloat cg),
                                                     (''dividend_income'', PFloat dv)]),
                                 (''amount'', PFloat (fmul r (fadd cg dv)))]),
                     []))))"







definition metric_url :: "string \<Rightarrow> string" where
  "metric_url stock =
     ''https://finnhub.io/api/v1/stock/metric?symbol='' @ stock @
     ''&metric=all&token=d44ckbhr01qt371ud7agd44ckbhr01qt371ud7b0''"

definition get_company_overview_CP2 ::
  "config \<Rightarrow> network \<Rightarrow> string \<Rightarrow> (py_exc + pyval) \<times> request list" where
  "get_company_overview_CP2 cfg net stock =
     (let url = metric_url stock;
          (data, reqs) = retrieve_from_endpoint cfg net url
      in case py_contains ''error'' data of
           Inl e \<Rightarrow> (Inl e, reqs)
         | Inr True \<Rightarrow> (Inr data, reqs)
         | Inr False \<Rightarrow>
             (case py_get data ''metric'' (PDict []) of
                Inl e \<Rightarrow> (Inl e, reqs)
              | Inr latest_data \<Rightarrow>
                  (Inr (PDict [(''symbol'', PStr stock), (''latest_metrics'', latest_data)]), reqs)))"

definition is_mapping :: "pyval \<Rightarrow> bool" where
  "is_mapping v = (case v of PDict _ \<Rightarrow> True | _ \<Rightarrow> False)"

section \<open>Session memory\<close>

datatype role = Human | AI

record message =
  role :: role
  content :: string

text \<open>
  Modelled from the spec: the store behind \<^verbatim>\<open>StreamlitChatMessageHistory\<close> is code of
  the libraries the repository imports, not of the repository. Section 4.3 gives its
  contract: \<^verbatim>\<open>get(session_id)\<close> yields the ordered message sequence of the session,
  empty for an identifier never seen; \<^verbatim>\<open>append(session_id, message)\<close> adds a message at
  the end of that session's sequence.
\<close>

type_synonym store = "string \<rightharpoonup> message list"

definition store_get :: "store \<Rightarrow> string \<Rightarrow> message list" where
  "store_get st session_id = (case st session_id of None \<Rightarrow> [] | Some ms \<Rightarrow> ms)"

definition store_append :: "store \<Rightarrow> string \<Rightarrow> message \<Rightarrow> store" where
  "store_append st session_id m = st(session_id \<mapsto> store_get st session_id @ [m])"

text \<open>
  Lines 293 to 295: the history of a session is the one kept under the key
  \<^verbatim>\<open>session_id\<close>.
\<close>

definition get_session_history :: "string \<Rightarrow> string" where
  "get_session_history session_id = session_id"

text \<open>The store after a sequence of appends, each to the history of its session.\<close>

definition store_after :: "(string \<times> message) list \<Rightarrow> store" where
  "store_after ops = fold (\<lambda>(sid, m) st. store_append st (get_session_history sid) m) ops Map.empty"

section \<open>Sample configuration and networks\<close>

definition sample_config :: config where
  "sample_config =
     \<lparr>GROQ_API_KEY = ''groq-key'', FINNHUB_API_KEY = ''finnhub-key'', ZOYA_API_KEY = ''zoya-key''\<rparr>"

text \<open>A network that answers every call with status 200 and the given JSON document.\<close>

definition respond_json :: "pyval \<Rightarrow> network" where
  "respond_json body =
     (\<lambda>req. Responds \<lparr>status_code = 200, reason = ''OK'', resp_text = [], resp_json = Inr body\<rparr>)"

text \<open>A network that answers every call with status 200 and a body that is not JSON.\<close>

definition respond_garbage :: network where
  "respond_garbage =
     (\<lambda>req. Responds \<lparr>status_code = 200, reason = ''OK'', resp_text = ''<html>'',
                      resp_json = Inl (json_decode_error
                                         ''Expecting value: line 1 column 1 (char 0)'')\<rparr>)"

section \<open>Facts about the adapters and the helpers\<close>

lemma retrieve_graphql_endpoint_requests:
  "snd (retrieve_graphql_endpoint cfg net endpoint query variables operation_name extra_headers) =
     [POST endpoint (graphql_headers cfg extra_headers)
        (PDict (graphql_payload query variables operation_name))]"
  by (simp add: retrieve_graphql_endpoint_def Let_def)

lemma retrieve_graphql_endpoint_is_mapping:
  "is_mapping (fst (retrieve_graphql_endpoint cfg net endpoint query variables operation_name
     extra_headers))"
  by (simp add: retrieve_graphql_endpoint_def Let_def is_mapping_def graphql_exception_def
      graphql_result_def split: transport.split sum.split pyval.split option.split)

lemma retrieve_from_endpoint_requests:
  "snd (retrieve_from_endpoint cfg net url) = [GET url [(''X-Finnhub-Token'', FINNHUB_API_KEY cfg)]]"
  by (simp add: retrieve_from_endpoint_def Let_def)







section \<open>Input validation of the compliance tool\<close>






lemma retrieve_graphql_endpoint_unparsed:
  assumes "net (POST endpoint (graphql_headers cfg extra_headers)
                  (PDict (graphql_payload query variables operation_name))) = Responds response"
    and "\<not> raise_for_status response"
    and "resp_json response = Inl e"
  shows "fst (retrieve_graphql_endpoint cfg net endpoint query variables operation_name
                extra_headers) = graphql_exception endpoint e"
  using assms by (simp add: retrieve_graphql_endpoint_def Let_def)

lemma retrieve_from_endpoint_parsed:
  assumes "net (GET url [(''X-Finnhub-Token'', FINNHUB_API_KEY cfg)]) = Responds response"
    and "\<not> raise_for_status response"
    and "resp_json response = Inr body"
  shows "fst (retrieve_from_endpoint cfg net url) = body"
  using assms by (simp add: retrieve_from_endpoint_def Let_def)

lemma retrieve_from_endpoint_unparsed:
  assumes "net (GET url [(''X-Finnhub-Token'', FINNHUB_API_KEY cfg)]) = Responds response"
    and "\<not> raise_for_status response"
    and "resp_json response = Inl e"
  shows "fst (retrieve_from_endpoint cfg net url) =
           PDict [(''error'', PStr (unexpected_error_text e)),
                  (''url'', PStr url)]"
  using assms by (simp add: retrieve_from_endpoint_def Let_def)

lemma get_compliance_report_valid:
  assumes "py_strip s \<noteq> []"
  shows "fst (get_compliance_report cfg net (PStr s)) =
     (let result = fst (retrieve_graphql_endpoint cfg net compliance_endpoint
                          query_compliance_report
                          (Some [(''symbol'', PStr (py_upper (py_strip s)))])
                          (Some ''getReport'') None)
      in case result of
           PDict kvs \<Rightarrow>
             (case map_of kvs ''data'' of
                Some d \<Rightarrow>
                  (case report_of d of
                     Inl e \<Rightarrow> Inl e
                   | Inr report \<Rightarrow>
                       if report = PNone then Inr (not_found (py_upper (py_strip s)))
                       else Inr result)
              | None \<Rightarrow> Inr result)
         | _ \<Rightarrow> Inr result)"
  using assms
  by (simp add: get_compliance_report_def Let_def split_beta
      split: pyval.split option.split sum.split)


lemma report_of_absent:
  "report_of PNone = Inr PNone"
  "map_of kvs ''basicCompliance'' = None \<Longrightarrow> report_of (PDict kvs) = Inr PNone"
  "report_of (PDict [(''basicCompliance'', PDict [(''report'', PNone)])]) = Inr PNone"
  by (simp_all add: report_of_def py_or_def py_get_def)



section \<open>The request of the compliance tool\<close>



section \<open>A null report\<close>



lemma graphql_payload_keys:
  "map_of (graphql_payload query variables operation_name) ''query'' = Some (PStr query)"
  "map_of (graphql_payload query variables operation_name) ''variables'' =
     (case variables of None \<Rightarrow> None | Some vs \<Rightarrow> Some (PDict vs))"
  "map_of (graphql_payload query variables operation_name) ''operationName'' =
     (case operation_name of
        None \<Rightarrow> None
      | Some n \<Rightarrow> if n = [] then None else Some (PStr n))"
  by (simp_all add: graphql_payload_def Let_def split: option.split)

section \<open>The body of a GraphQL request\<close>

text \<open>
  Claim C5, as stated, fails when the operation name that is passed is the empty
  string: line 87 tests the truth value of \<^verbatim>\<open>operation_name\<close>, so the key
  \<^verbatim>\<open>operationName\<close> is left out although an operation name was provided.
\<close>

theorem empty_operation_name_omitted:
  "snd (retrieve_graphql_endpoint sample_config (respond_json PNone)
          ''https://api.zoya.finance/graphql'' ''{ ping }'' None (Some []) None) =
     [POST ''https://api.zoya.finance/graphql''
        [(''Authorization'', ''zoya-key''), (''Content-Type'', ''application/json''),
         (''Accept'', ''application/json'')]
        (PDict [(''query'', PStr ''{ ping }'')])] \<and>
   \<not> ((''operationName'' \<in> fst ` set (graphql_payload ''{ ping }'' None (Some []))) =
       (Some [] \<noteq> (None :: string option)))"
  by (simp add: retrieve_graphql_endpoint_requests graphql_payload_def graphql_headers_def
      sample_config_def)

text \<open>
  Claim C5, amended. Every invocation of \<^verbatim>\<open>retrieve_graphql_endpoint\<close> makes one POST whose
  payload has the key \<^verbatim>\<open>query\<close>, bound to the query; has the key \<^verbatim>\<open>variables\<close> exactly
  when the argument is not \<^verbatim>\<open>None\<close>, bound to the argument; and has the key
  \<^verbatim>\<open>operationName\<close> exactly when the operation name is a non-empty string, bound to that
  string. An absent key is absent from the payload, not bound to \<^verbatim>\<open>None\<close>.
\<close>

theorem graphql_request_body:
  "snd (retrieve_graphql_endpoint cfg net endpoint query variables operation_name extra_headers) =
     [POST endpoint (graphql_headers cfg extra_headers)
        (PDict (graphql_payload query variables operation_name))] \<and>
   map_of (graphql_payload query variables operation_name) ''query'' = Some (PStr query) \<and>
   map_of (graphql_payload query variables operation_name) ''variables'' =
     (case variables of None \<Rightarrow> None | Some vs \<Rightarrow> Some (PDict vs)) \<and>
   map_of (graphql_payload query variables operation_name) ''operationName'' =
     (case operation_name of
        None \<Rightarrow> None
      | Some n \<Rightarrow> if n = [] then None else Some (PStr n))"
  by (simp only: retrieve_graphql_endpoint_requests graphql_payload_keys simp_thms)

section \<open>A response that is not JSON\<close>

text \<open>
  Claim C7, as stated, fails: on a status 200 response whose body does not parse, both
  adapters return a mapping whose \<^verbatim>\<open>error\<close> is the catch-all text
  \<^verbatim>\<open>Unexpected error: JSONDecodeError - ...\<close>, not a kind \<^verbatim>\<open>ParseError\<close>.
\<close>

theorem parse_failure_is_unexpected_error:
  "fst (retrieve_from_endpoint sample_config respond_garbage ''https://finnhub.io/api/v1/quote'') =
     PDict [(''error'', PStr ''Unexpected error: JSONDecodeError - Expecting value: line 1 column 1 (char 0)''),
            (''url'', PStr ''https://finnhub.io/api/v1/quote'')] \<and>
   py_get (fst (retrieve_from_endpoint sample_config respond_garbage
                  ''https://finnhub.io/api/v1/quote'')) ''error'' PNone \<noteq> Inr (PStr ''ParseError'') \<and>
   fst (retrieve_graphql_endpoint sample_config respond_garbage ''https://api.zoya.finance/graphql''
          ''{ ping }'' None None None) =
     PDict [(''error'', PStr ''Unexpected error: JSONDecodeError - Expecting value: line 1 column 1 (char 0)''),
            (''url'', PStr ''https://api.zoya.finance/graphql''),
            (''detail'', PStr ''Failed to parse JSON response.'')] \<and>
   py_get (fst (retrieve_graphql_endpoint sample_config respond_garbage
                  ''https://api.zoya.finance/graphql'' ''{ ping }'' None None None))
     ''error'' PNone \<noteq> Inr (PStr ''ParseError'')"
  by (simp add: retrieve_from_endpoint_def retrieve_graphql_endpoint_def respond_garbage_def
      raise_for_status_def unexpected_error_text_def json_decode_error_def graphql_exception_def
      py_get_def Let_def)

text \<open>
  Claim C7, amended. When the response has a 2xx status and parsing its body raises an
  exception, each adapter returns a mapping whose \<^verbatim>\<open>error\<close> entry is the catch-all text
  \<^verbatim>\<open>Unexpected error: <type name> - <message>\<close> of that exception: the kind of any other
  unexpected error, not a kind \<^verbatim>\<open>ParseError\<close> of its own.
\<close>

theorem parse_failure_result:
  assumes "200 \<le> status_code response" and "status_code response < 300"
    and "resp_json response = Inl e"
  shows "(net (GET url [(''X-Finnhub-Token'', FINNHUB_API_KEY cfg)]) = Responds response \<longrightarrow>
          py_get (fst (retrieve_from_endpoint cfg net url)) ''error'' PNone =
            Inr (PStr (''Unexpected error: '' @ exc_type e @ '' - '' @ exc_msg e))) \<and>
         (net (POST endpoint (graphql_headers cfg extra_headers)
                 (PDict (graphql_payload query variables operation_name))) = Responds response \<longrightarrow>
          py_get (fst (retrieve_graphql_endpoint cfg net endpoint query variables operation_name
                         extra_headers)) ''error'' PNone =
            Inr (PStr (''Unexpected error: '' @ exc_type e @ '' - '' @ exc_msg e)))"
proof -
  from assms(1,2) have ok: "\<not> raise_for_status response"
    by (simp add: raise_for_status_def)
  show ?thesis
    using assms(3) ok
    by (simp add: retrieve_from_endpoint_def retrieve_graphql_endpoint_def Let_def
        unexpected_error_text_def graphql_exception_def py_get_def)
qed

theorem parse_failure_result_witness:
  "py_get (fst (retrieve_from_endpoint sample_config respond_garbage ''u'')) ''error'' PNone =
     Inr (PStr (''Unexpected error: '' @ ''JSONDecodeError'' @ '' - '' @
                ''Expecting value: line 1 column 1 (char 0)'')) \<and>
   py_get (fst (retrieve_graphql_endpoint sample_config respond_garbage ''e'' ''q'' None None None))
       ''error'' PNone =
     Inr (PStr (''Unexpected error: '' @ ''JSONDecodeError'' @ '' - '' @
                ''Expecting value: line 1 column 1 (char 0)''))"
  using parse_failure_result [of "\<lparr>status_code = 200, reason = ''OK'', resp_text = ''<html>'',
      resp_json = Inl (json_decode_error ''Expecting value: line 1 column 1 (char 0)'')\<rparr>"
      "json_decode_error ''Expecting value: line 1 column 1 (char 0)''" respond_garbage "''u''"
      sample_config "''e''" None "''q''" None None]
  by (simp add: respond_garbage_def json_decode_error_def)

section \<open>The request of the metrics tool\<close>

text \<open>
  Claim C8. The call \<^verbatim>\<open>get_company_overview_CP2\<close> makes for the stock \<^verbatim>\<open>AAPL\<close>, under a
  configuration whose \<^verbatim>\<open>FINNHUB_API_KEY\<close> is \<^verbatim>\<open>finnhub-key\<close>: a GET of the metrics URL
  with \<^verbatim>\<open>symbol=AAPL\<close> and \<^verbatim>\<open>metric=all\<close>, whose \<^verbatim>\<open>token\<close> parameter is the literal
  written on line 229, while the configured key travels in the header
  \<^verbatim>\<open>X-Finnhub-Token\<close>.
\<close>

theorem metric_request_token:
  "snd (get_company_overview_CP2 sample_config (respond_json (PDict [])) ''AAPL'') =
     [GET ''https://finnhub.io/api/v1/stock/metric?symbol=AAPL&metric=all&token=d44ckbhr01qt371ud7agd44ckbhr01qt371ud7b0''
        [(''X-Finnhub-Token'', ''finnhub-key'')]] \<and>
   FINNHUB_API_KEY sample_config = ''finnhub-key''"
  by (simp add: get_company_overview_CP2_def retrieve_from_endpoint_def Let_def metric_url_def
      sample_config_def respond_json_def raise_for_status_def py_contains_def py_get_def)

text \<open>The same for every configuration, network and stock.\<close>

lemma get_company_overview_CP2_requests:
  "snd (get_company_overview_CP2 cfg net stock) =
     [GET (''https://finnhub.io/api/v1/stock/metric?symbol='' @ stock @
           ''&metric=all&token=d44ckbhr01qt371ud7agd44ckbhr01qt371ud7b0'')
        [(''X-Finnhub-Token'', FINNHUB_API_KEY cfg)]]"
proof -
  obtain data rs where r: "retrieve_from_endpoint cfg net (metric_url stock) = (data, rs)"
    by (cases "retrieve_from_endpoint cfg net (metric_url stock)")
  with retrieve_from_endpoint_requests [of cfg net "metric_url stock"]
  have "rs = [GET (metric_url stock) [(''X-Finnhub-Token'', FINNHUB_API_KEY cfg)]]"
    by simp
  with r show ?thesis
    by (simp add: get_company_overview_CP2_def Let_def metric_url_def
        split: sum.split bool.split)
qed

section \<open>Exceptions across the tool boundary\<close>

text \<open>
  Claim C1. When the metrics endpoint answers with status 200 and the JSON document
  \<^verbatim>\<open>[]\<close>, \<^verbatim>\<open>retrieve_from_endpoint\<close> hands the list back, the test \<^verbatim>\<open>"error" in data\<close>
  is false, and \<^verbatim>\<open>data.get\<close> raises \<^verbatim>\<open>AttributeError\<close>, which leaves
  \<^verbatim>\<open>get_company_overview_CP2\<close>.
\<close>

theorem overview_raises_on_list_body:
  "fst (get_company_overview_CP2 sample_config (respond_json (PList [])) ''AAPL'') =
     Inl (PyExc ''AttributeError''
            ([CHR 0x27] @ ''list'' @ [CHR 0x27] @ '' object has no attribute '' @
             [CHR 0x27] @ ''get'' @ [CHR 0x27]) False)"
  by (simp add: get_company_overview_CP2_def retrieve_from_endpoint_def Let_def
      respond_json_def raise_for_status_def py_contains_def py_get_def)

text \<open>
  Claim C10. When the compliance endpoint answers with status 200 and the body
  \<^verbatim>\<open>{"data": {"basicCompliance": "unavailable"}}\<close>, the content of \<^verbatim>\<open>data\<close> leads to no
  report, and \<^verbatim>\<open>get_compliance_report\<close> raises \<^verbatim>\<open>AttributeError\<close> at line 180 instead of
  returning \<^verbatim>\<open>NotFound\<close>.
\<close>

theorem compliance_raises_on_string_field:
  "fst (get_compliance_report sample_config
          (respond_json (PDict [(''data'', PDict [(''basicCompliance'', PStr ''unavailable'')])]))
          (PStr ''AAPL'')) =
     Inl (PyExc ''AttributeError''
            ([CHR 0x27] @ ''str'' @ [CHR 0x27] @ '' object has no attribute '' @
             [CHR 0x27] @ ''get'' @ [CHR 0x27]) False)"
proof -
  have s: "py_strip ''AAPL'' \<noteq> []"
    by (simp add: py_strip_def is_space_def)
  show ?thesis
    by (simp add: get_compliance_report_valid [OF s] retrieve_graphql_endpoint_def Let_def
        respond_json_def raise_for_status_def graphql_result_def report_of_def py_or_def
        py_get_def)
qed

text \<open>
  Where \<^verbatim>\<open>data\<close> is \<^verbatim>\<open>None\<close>, or a mapping without the key \<^verbatim>\<open>basicCompliance\<close>, the
  tool does return \<^verbatim>\<open>NotFound\<close>.
\<close>

lemma get_compliance_report_not_found:
  assumes "py_strip s \<noteq> []"
    and "fst (retrieve_graphql_endpoint cfg net compliance_endpoint query_compliance_report
                (Some [(''symbol'', PStr (py_upper (py_strip s)))]) (Some ''getReport'') None) =
         PDict kvs"
    and "map_of kvs ''data'' = Some d"
    and "d = PNone \<or> (\<exists>ds. d = PDict ds \<and> map_of ds ''basicCompliance'' = None)"
  shows "fst (get_compliance_report cfg net (PStr s)) = Inr (not_found (py_upper (py_strip s)))"
  using assms(2-4) by (auto simp add: get_compliance_report_valid [OF assms(1)] report_of_absent)

text \<open>The function of the purification tool returns a mapping on every input and calls nothing.\<close>

lemma get_purification_amount_is_mapping:
  "\<exists>kvs. get_purification_amount a b c = (Inr (PDict kvs), [])"
  by (simp add: get_purification_amount_def invalid_numbers_def split: option.split)

section \<open>The purification amount\<close>












section \<open>Sessions\<close>

text \<open>
  Claim C9. For two distinct session identifiers \<open>a\<close> and \<open>b\<close> and every state of the
  store (so after every sequence of prior operations), appending a message \<open>m\<close> to the
  history of \<open>a\<close> leaves the retrieval for \<open>b\<close> as it was: the retrieval for \<open>b\<close>, which
  did not contain \<open>m\<close> before, does not contain it afterwards.
\<close>

theorem store_sessions_disjoint:
  assumes "a \<noteq> b"
  shows "store_get (store_append st (get_session_history a) m) (get_session_history b) =
           store_get st (get_session_history b) \<and>
         (m \<notin> set (store_get st (get_session_history b)) \<longrightarrow>
          m \<notin> set (store_get (store_append st (get_session_history a) m) (get_session_history b)))"
  using assms by (simp add: store_append_def store_get_def get_session_history_def)

theorem store_sessions_disjoint_witness:
  "''A'' \<noteq> ''B'' \<and>
   \<lparr>role = Human, content = ''hi''\<rparr> \<notin>
     set (store_get (store_after [(''B'', \<lparr>role = AI, content = ''hello''\<rparr>)])
            (get_session_history ''B'')) \<and>
   store_get (store_append (store_after [(''B'', \<lparr>role = AI, content = ''hello''\<rparr>)])
                (get_session_history ''A'') \<lparr>role = Human, content = ''hi''\<rparr>)
     (get_session_history ''B'') = [\<lparr>role = AI, content = ''hello''\<rparr>] \<and>
   \<lparr>role = Human, content = ''hi''\<rparr> \<notin>
     set (store_get (store_append (store_after [(''B'', \<lparr>role = AI, content = ''hello''\<rparr>)])
                       (get_session_history ''A'') \<lparr>role = Human, content = ''hi''\<rparr>)
            (get_session_history ''B''))"
  using store_sessions_disjoint [of "''A''" "''B''"
      "store_after [(''B'', \<lparr>role = AI, content = ''hello''\<rparr>)]" "\<lparr>role = Human, content = ''hi''\<rparr>"]
  by (simp add: store_after_def store_append_def store_get_def get_session_history_def)

end
